theory Spec2Isabelle
  imports Complex_Main "HOL-Library.Multiset"
begin

section \<open>The ABC validator of tools/validate\_program.py\<close>

text \<open>
  A shallow embedding of \<^verbatim>\<open>src/tools/validate_program.py\<close>.

  \<^item> A Python \<^verbatim>\<open>str\<close> is a \<^typ>\<open>string\<close>; each \<^typ>\<open>char\<close> stands for the code point
    of the same number, so the texts modelled are those over the code points 0 to 255.
  \<^item> A Python \<^verbatim>\<open>float\<close> is an exact \<^typ>\<open>rat\<close>: the rounding of IEEE doubles, their
    overflow to \<^verbatim>\<open>inf\<close> and \<^verbatim>\<open>nan\<close> are not modelled. Dividing by zero is modelled,
    as the exception Python raises.
  \<^item> A Python \<^verbatim>\<open>int\<close> is an \<^typ>\<open>int\<close>.
  \<^item> A function that can raise returns \<open>exn + 'a\<close>, the exception on the left.
\<close>

subsection \<open>Exceptions\<close>

datatype exn =
    ValueError string
  | ZeroDivisionError
  | IndexError
  | KeyError string

subsection \<open>Characters and the string methods used\<close>

text \<open>\<^verbatim>\<open>str.isspace\<close> on the code points below 256.\<close>

definition py_isspace :: "char \<Rightarrow> bool" where
  "py_isspace c \<longleftrightarrow> c \<in> set [CHR 0x09, CHR 0x0A, CHR 0x0B, CHR 0x0C, CHR 0x0D,
     CHR 0x1C, CHR 0x1D, CHR 0x1E, CHR 0x1F, CHR 0x20, CHR 0x85, CHR 0xA0]"

text \<open>The decimal digits: what \<^verbatim>\<open>\d\<close> matches and what \<^verbatim>\<open>float\<close> reads as a digit.\<close>

definition is_decimal :: "char \<Rightarrow> bool" where
  "is_decimal c \<longleftrightarrow> c \<in> set ''0123456789''"

text \<open>\<^verbatim>\<open>str.isdigit\<close> on the code points below 256: the decimal digits and the
  superscripts two, three and one.\<close>

definition py_isdigit :: "char \<Rightarrow> bool" where
  "py_isdigit c \<longleftrightarrow> is_decimal c \<or> c \<in> set [CHR 0xB2, CHR 0xB3, CHR 0xB9]"

definition quote :: char where
  "quote = CHR 0x27"

definition dquote :: char where
  "dquote = CHR 0x22"

definition newline :: char where
  "newline = CHR 0x0A"

text \<open>\<^verbatim>\<open>s.strip()\<close>, \<^verbatim>\<open>s.strip(chars)\<close> and \<^verbatim>\<open>s.rstrip(chars)\<close>.\<close>

definition py_strip :: "string \<Rightarrow> string" where
  "py_strip s = rev (dropWhile py_isspace (rev (dropWhile py_isspace s)))"

definition strip_chars :: "string \<Rightarrow> string \<Rightarrow> string" where
  "strip_chars cs s =
     rev (dropWhile (\<lambda>c. c \<in> set cs) (rev (dropWhile (\<lambda>c. c \<in> set cs) s)))"

definition rstrip_chars :: "string \<Rightarrow> string \<Rightarrow> string" where
  "rstrip_chars cs s = rev (dropWhile (\<lambda>c. c \<in> set cs) (rev s))"

text \<open>\<^verbatim>\<open>s.split(sep)\<close> for a separator of one character: never an empty list.\<close>

fun split_on :: "char \<Rightarrow> string \<Rightarrow> string list" where
  "split_on sep [] = [[]]"
| "split_on sep (c # cs) =
     (if c = sep then [] # split_on sep cs
      else (case split_on sep cs of
              [] \<Rightarrow> [[c]]
            | p # ps \<Rightarrow> (c # p) # ps))"

text \<open>\<^verbatim>\<open>sep.join(parts)\<close>.\<close>

fun py_join :: "string \<Rightarrow> string list \<Rightarrow> string" where
  "py_join sep [] = []"
| "py_join sep [p] = p"
| "py_join sep (p # q # ps) = p @ sep @ py_join sep (q # ps)"

text \<open>\<^verbatim>\<open>str(n)\<close> for an integer.\<close>

definition digit_char :: "nat \<Rightarrow> char" where
  "digit_char d = char_of (48 + d)"

fun str_nat :: "nat \<Rightarrow> string" where
  "str_nat n = (if n < 10 then [digit_char n] else str_nat (n div 10) @ [digit_char (n mod 10)])"

declare str_nat.simps [simp del]

definition str_int :: "int \<Rightarrow> string" where
  "str_int i = (if i < 0 then CHR ''-'' # str_nat (nat (- i)) else str_nat (nat i))"

subsection \<open>Reading a number\<close>

definition digit_val :: "char \<Rightarrow> nat" where
  "digit_val c = of_char c - 48"

definition dec_value :: "string \<Rightarrow> nat" where
  "dec_value s = foldl (\<lambda>n c. 10 * n + digit_val c) 0 s"

text \<open>
  \<^verbatim>\<open>float(s)\<close>, with \<open>None\<close> for the \<^verbatim>\<open>ValueError\<close>. The tokenizer lets only decimal
  digits, the three superscript digits, the octave marks \<^verbatim>\<open>'\<close> and \<^verbatim>\<open>,\<close> reach it
  (a \<^verbatim>\<open>/\<close> is split away before); on a string of these, \<^verbatim>\<open>float\<close> succeeds exactly when
  the string is a non-empty run of decimal digits. The signs, points, exponents,
  underscores, surrounding blanks and the words \<^verbatim>\<open>inf\<close> and \<^verbatim>\<open>nan\<close> that \<^verbatim>\<open>float\<close>
  accepts besides are not modelled.
\<close>

definition py_float :: "string \<Rightarrow> rat option" where
  "py_float s = (if s \<noteq> [] \<and> list_all is_decimal s then Some (of_nat (dec_value s)) else None)"

text \<open>\<^verbatim>\<open>repr(s)\<close> of a string with no double quote, backslash or unprintable character.\<close>

definition py_repr :: "string \<Rightarrow> string" where
  "py_repr s = (if quote \<in> set s then [dquote] @ s @ [dquote] else [quote] @ s @ [quote])"

definition float_error :: "string \<Rightarrow> exn" where
  "float_error s = ValueError (''could not convert string to float: '' @ py_repr s)"

text \<open>
  The block that reads a duration holding a \<^verbatim>\<open>/\<close>; the source has it three times, in
  the rest and the note branch of \<^verbatim>\<open>parse_abc_note\<close> and in \<^verbatim>\<open>abc_to_program\<close>:
  \<^verbatim>\<open>
  parts = s.split('/')
  if parts[0]: duration = float(parts[0]) / float(parts[1])
  else:        duration = 1.0 / float(parts[1])
  \<close>
\<close>

definition slash_duration :: "string \<Rightarrow> exn + rat" where
  "slash_duration s =
     (case split_on CHR ''/'' s of
        p0 # p1 # _ \<Rightarrow>
          if p0 \<noteq> [] then
            (case py_float p0 of
               None \<Rightarrow> Inl (float_error p0)
             | Some a \<Rightarrow>
                 (case py_float p1 of
                    None \<Rightarrow> Inl (float_error p1)
                  | Some b \<Rightarrow> if b = 0 then Inl ZeroDivisionError else Inr (a / b)))
          else
            (case py_float p1 of
               None \<Rightarrow> Inl (float_error p1)
             | Some b \<Rightarrow> if b = 0 then Inl ZeroDivisionError else Inr (1 / b))
      | _ \<Rightarrow> Inl IndexError)"

subsection \<open>The note and rest parser\<close>

definition ABC_BASE_NOTES :: "char \<rightharpoonup> int" where
  "ABC_BASE_NOTES = map_of
     [(CHR ''C'', 48), (CHR ''D'', 50), (CHR ''E'', 52), (CHR ''F'', 53),
      (CHR ''G'', 55), (CHR ''A'', 57), (CHR ''B'', 59),
      (CHR ''c'', 60), (CHR ''d'', 62), (CHR ''e'', 64), (CHR ''f'', 65),
      (CHR ''g'', 67), (CHR ''a'', 69), (CHR ''b'', 71)]"

text \<open>The accidental prefix: the semitone delta and the rest of the note.\<close>

definition accidental_prefix :: "string \<Rightarrow> int \<times> string" where
  "accidental_prefix note =
     (if take 2 note = ''^^'' then (2, drop 2 note)
      else if take 1 note = ''^'' then (1, drop 1 note)
      else if take 2 note = ''__'' then (- 2, drop 2 note)
      else if take 1 note = ''_'' then (- 1, drop 1 note)
      else if take 1 note = ''='' then (0, drop 1 note)
      else (0, note))"

definition parse_abc_note :: "string \<Rightarrow> exn + (int \<times> rat)" where
  "parse_abc_note token =
     (if token = [] then Inl (ValueError ''Empty note token'')
      else
        let note = py_strip token in
        if take 1 note = ''z'' \<or> take 1 note = ''Z'' then
          (let rest_part = drop 1 note in
           if rest_part = [] then Inr (- 1, 1)
           else if CHR ''/'' \<in> set rest_part then
             (case slash_duration rest_part of
                Inl e \<Rightarrow> Inl e
              | Inr d \<Rightarrow> Inr (- 1, d))
           else
             (case py_float rest_part of
                None \<Rightarrow> Inr (- 1, 1)
              | Some d \<Rightarrow> Inr (- 1, d)))
        else
          (case accidental_prefix note of (accidental, note1) \<Rightarrow>
           (case note1 of
              [] \<Rightarrow> Inl (ValueError (''Invalid ABC note: '' @ token))
            | base_char # note2 \<Rightarrow>
               (case ABC_BASE_NOTES base_char of
                  None \<Rightarrow> Inl (ValueError (''Invalid note letter '' @ [quote, base_char, quote]
                                            @ '' in: '' @ token))
                | Some base \<Rightarrow>
                   (let ups = takeWhile (\<lambda>c. c = quote) note2;
                        note3 = dropWhile (\<lambda>c. c = quote) note2;
                        downs = takeWhile (\<lambda>c. c = CHR '','') note3;
                        note4 = dropWhile (\<lambda>c. c = CHR '','') note3;
                        midi = base + accidental + 12 * int (length ups) - 12 * int (length downs)
                    in
                    if midi < 0 \<or> midi > 127 then
                      Inl (ValueError (''Note out of MIDI range (0-127): '' @ token
                                       @ '' -> '' @ str_int midi))
                    else if note4 = [] then Inr (midi, 1)
                    else if CHR ''/'' \<in> set note4 then
                      (case slash_duration note4 of
                         Inl e \<Rightarrow> Inl e
                       | Inr d \<Rightarrow> Inr (midi, d))
                    else
                      (case py_float note4 of
                         None \<Rightarrow> Inl (ValueError (''Invalid duration in: '' @ token))
                       | Some d \<Rightarrow> Inr (midi, d)))))))"

subsection \<open>The chord parser\<close>

definition is_octave_mark :: "char \<Rightarrow> bool" where
  "is_octave_mark c \<longleftrightarrow> c = quote \<or> c = CHR '',''"

text \<open>
  One attempt of the pattern \<^verbatim>\<open>(\^{1,2}|_{1,2}|=)?([A-Ga-g])([',]*)\<close> at the head of
  \<open>s\<close> with the accidental \<open>acc\<close>: the token matched and what follows it.
\<close>

definition group_at :: "string \<Rightarrow> string \<Rightarrow> (string \<times> string) option" where
  "group_at acc s =
     (if take (length acc) s = acc then
        (case drop (length acc) s of
           [] \<Rightarrow> None
         | l # r \<Rightarrow>
             if l \<in> set ''ABCDEFGabcdefg''
             then Some (acc @ [l] @ takeWhile is_octave_mark r, dropWhile is_octave_mark r)
             else None)
      else None)"

text \<open>The alternatives in the order the regular expression tries them.\<close>

definition match_note_group :: "string \<Rightarrow> (string \<times> string) option" where
  "match_note_group s =
     (case group_at ''^^'' s of Some m \<Rightarrow> Some m | None \<Rightarrow>
      (case group_at ''^'' s of Some m \<Rightarrow> Some m | None \<Rightarrow>
       (case group_at ''__'' s of Some m \<Rightarrow> Some m | None \<Rightarrow>
        (case group_at ''_'' s of Some m \<Rightarrow> Some m | None \<Rightarrow>
         (case group_at ''='' s of Some m \<Rightarrow> Some m | None \<Rightarrow>
          group_at [] s)))))"

lemma group_at_shorter: "group_at acc s = Some (tok, r) \<Longrightarrow> length r < length s"
proof -
  assume a: "group_at acc s = Some (tok, r)"
  then obtain l r0 where d: "drop (length acc) s = l # r0" and r: "r = dropWhile is_octave_mark r0"
    by (auto simp: group_at_def split: if_splits list.splits)
  have "length r \<le> length r0" using r by (simp add: length_dropWhile_le)
  moreover have "length (l # r0) \<le> length s" using d [symmetric] by simp
  ultimately show ?thesis by simp
qed

lemma match_note_group_shorter: "match_note_group s = Some (tok, r) \<Longrightarrow> length r < length s"
  by (auto simp: match_note_group_def split: option.splits dest: group_at_shorter)

text \<open>\<^verbatim>\<open>note_pattern.finditer(inner)\<close>: the matches from left to right, none overlapping.\<close>

function note_groups :: "string \<Rightarrow> string list" where
  "note_groups [] = []"
| "note_groups (c # cs) =
     (case match_note_group (c # cs) of
        None \<Rightarrow> note_groups cs
      | Some (tok, r) \<Rightarrow> tok # note_groups r)"
  by pat_completeness auto
termination
  by (relation "measure length") (auto dest: match_note_group_shorter)

text \<open>
  The loop of \<^verbatim>\<open>parse_abc_chord\<close> over the groups: a \<^verbatim>\<open>ValueError\<close> of the note parser
  drops the group, any other exception leaves the function. The duration of every pair
  is \<^verbatim>\<open>chord_duration\<close>, which the source sets to \<^verbatim>\<open>1.0\<close> and never assigns again (the
  result of its \<^verbatim>\<open>re.search\<close> for a suffix, \<^verbatim>\<open>duration_match\<close>, is not read).
\<close>

fun chord_notes_of :: "rat \<Rightarrow> string list \<Rightarrow> exn + (int \<times> rat) list" where
  "chord_notes_of chord_duration [] = Inr []"
| "chord_notes_of chord_duration (note_token # ts) =
     (case parse_abc_note note_token of
        Inl (ValueError _) \<Rightarrow> chord_notes_of chord_duration ts
      | Inl e \<Rightarrow> Inl e
      | Inr (midi, _) \<Rightarrow>
          (case chord_notes_of chord_duration ts of
             Inl e \<Rightarrow> Inl e
           | Inr ns \<Rightarrow> Inr ((midi, chord_duration) # ns)))"

definition parse_abc_chord :: "string \<Rightarrow> exn + (int \<times> rat) list" where
  "parse_abc_chord chord_str =
     (let inner = strip_chars ''[]'' chord_str in
      if inner = [] then Inr []
      else chord_notes_of 1 (note_groups inner))"

subsection \<open>The tokenizer\<close>

text \<open>\<^verbatim>\<open>re.match(r'^[A-Z]:', l)\<close>.\<close>

definition is_header :: "string \<Rightarrow> bool" where
  "is_header l =
     (case l of
        a # b # _ \<Rightarrow> a \<in> set ''ABCDEFGHIJKLMNOPQRSTUVWXYZ'' \<and> b = CHR '':''
      | _ \<Rightarrow> False)"

text \<open>\<^verbatim>\<open>re.sub(r'X+', ' ', s)\<close> for a class \<open>X\<close> of characters: every maximal run of
  them becomes one blank.\<close>

function sub_runs :: "(char \<Rightarrow> bool) \<Rightarrow> string \<Rightarrow> string" where
  "sub_runs p [] = []"
| "sub_runs p (c # cs) =
     (if p c then CHR '' '' # sub_runs p (dropWhile p cs) else c # sub_runs p cs)"
  by pat_completeness auto
termination
  by (relation "measure (\<lambda>(p, s). length s)") (auto simp: length_dropWhile_le less_Suc_eq_le)

definition is_duration_char :: "char \<Rightarrow> bool" where
  "is_duration_char c \<longleftrightarrow> py_isdigit c \<or> c = CHR ''/''"

text \<open>
  The chord branch of the scanning loop, entered at a \<^verbatim>\<open>[\<close> followed by \<open>cs\<close> where
  \<open>cs\<close> holds a \<^verbatim>\<open>]\<close>: the token and the text left.
\<close>

definition chord_token :: "string \<Rightarrow> string \<times> string" where
  "chord_token cs =
     (let body = takeWhile (\<lambda>x. x \<noteq> CHR '']'') cs;
          after = drop 1 (dropWhile (\<lambda>x. x \<noteq> CHR '']'') cs)
      in (CHR ''['' # body @ '']'' @ takeWhile is_duration_char after,
          dropWhile is_duration_char after))"

text \<open>The note branch of the scanning loop: accidentals, one letter if there is one,
  octave marks, duration characters.\<close>

definition note_token :: "string \<Rightarrow> string \<times> string" where
  "note_token s =
     (let acc = takeWhile (\<lambda>x. x \<in> set ''^_='') s;
          r1 = dropWhile (\<lambda>x. x \<in> set ''^_='') s;
          letter = (case r1 of
                      [] \<Rightarrow> []
                    | l # _ \<Rightarrow> if l \<in> set ''ABCDEFGabcdefgzZ'' then [l] else []);
          r2 = drop (length letter) r1;
          oct = takeWhile is_octave_mark r2;
          r3 = dropWhile is_octave_mark r2
      in (acc @ letter @ oct @ takeWhile is_duration_char r3,
          dropWhile is_duration_char r3))"

lemma chord_token_shorter: "chord_token cs = (tok, r) \<Longrightarrow> length r \<le> length cs"
proof -
  assume "chord_token cs = (tok, r)"
  then have "r = dropWhile is_duration_char (drop 1 (dropWhile (\<lambda>x. x \<noteq> CHR '']'') cs))"
    by (simp add: chord_token_def Let_def)
  then have "length r \<le> length (drop 1 (dropWhile (\<lambda>x. x \<noteq> CHR '']'') cs))"
    using length_dropWhile_le by blast
  also have "\<dots> \<le> length (dropWhile (\<lambda>x. x \<noteq> CHR '']'') cs)" by simp
  also have "\<dots> \<le> length cs" by (rule length_dropWhile_le)
  finally show ?thesis .
qed

lemma note_token_shorter:
  assumes "note_token (c # cs) = (tok, r)" and "c \<in> set ''ABCDEFGabcdefgzZ^_=''"
  shows "length r \<le> length cs"
proof -
  define r1 where "r1 = dropWhile (\<lambda>x. x \<in> set ''^_='') (c # cs)"
  define letter where
    "letter = (case r1 of [] \<Rightarrow> [] | l # _ \<Rightarrow> if l \<in> set ''ABCDEFGabcdefgzZ'' then [l] else [])"
  define r2 where "r2 = drop (length letter) r1"
  have r: "r = dropWhile is_duration_char (dropWhile is_octave_mark r2)"
    using assms(1) by (simp add: note_token_def Let_def r1_def letter_def r2_def)
  have "length r \<le> length (dropWhile is_octave_mark r2)"
    unfolding r by (rule length_dropWhile_le)
  also have "\<dots> \<le> length r2" by (rule length_dropWhile_le)
  finally have le: "length r \<le> length r2" .
  have "length r2 \<le> length cs"
  proof (cases "c \<in> set ''^_=''")
    case True
    then have "r1 = dropWhile (\<lambda>x. x \<in> set ''^_='') cs" by (simp add: r1_def)
    then have "length r1 \<le> length cs" by (simp add: length_dropWhile_le)
    then show ?thesis by (simp add: r2_def)
  next
    case False
    then have "r1 = c # cs" by (simp add: r1_def)
    moreover from False assms(2) have "c \<in> set ''ABCDEFGabcdefgzZ''" by auto
    ultimately show ?thesis by (simp add: r2_def letter_def)
  qed
  with le show ?thesis by simp
qed

text \<open>The scanning loop of \<^verbatim>\<open>tokenize_abc\<close>, on the text from index \<^verbatim>\<open>i\<close> on.\<close>

function scan_tokens :: "string \<Rightarrow> string list" where
  "scan_tokens [] = []"
| "scan_tokens (c # cs) =
     (if py_isspace c then scan_tokens cs
      else if c = CHR ''['' then
        (if CHR '']'' \<notin> set cs then scan_tokens cs
         else (case chord_token cs of (chord, r) \<Rightarrow> chord # scan_tokens r))
      else if c \<in> set ''ABCDEFGabcdefgzZ^_='' then
        (case note_token (c # cs) of (token, r) \<Rightarrow>
           (if token \<noteq> [] then [token] else []) @ scan_tokens r)
      else scan_tokens cs)"
  by pat_completeness auto
termination
proof (relation "measure length")
  show "wf (measure length)" by simp
next
  fix c cs x chord r
  assume "(chord, r) = chord_token cs"
  then show "(r, c # cs) \<in> measure length"
    using chord_token_shorter [of cs chord r] by simp
next
  fix c cs x token r
  assume "(token, r) = note_token (c # cs)" and "c \<in> set ''ABCDEFGabcdefgzZ^_=''"
  then show "(r, c # cs) \<in> measure length"
    using note_token_shorter [of c cs token r] by simp
qed simp_all

definition tokenize_abc :: "string \<Rightarrow> string list" where
  "tokenize_abc abc_str =
     (let lines = split_on newline (py_strip abc_str);
          note_lines = filter (\<lambda>l. \<not> is_header l) lines;
          content0 = py_join '' '' note_lines;
          content1 = sub_runs (\<lambda>c. c = CHR ''|'') content0;
          content = py_strip (sub_runs py_isspace content1)
      in scan_tokens content)"

subsection \<open>Programs\<close>

text \<open>
  A note is a dictionary with the keys \<^verbatim>\<open>pitch\<close>, \<^verbatim>\<open>startBeat\<close>, \<^verbatim>\<open>lengthBeats\<close> and
  \<^verbatim>\<open>velocity\<close>, a program one with \<^verbatim>\<open>lengthBars\<close> and \<^verbatim>\<open>notes\<close>. A key can be missing
  (the code reads with \<^verbatim>\<open>.get\<close>): \<open>None\<close>. A pitch that is present is an integer here.
\<close>

record note_event =
  pitch :: "int option"
  startBeat :: "rat option"
  lengthBeats :: "rat option"
  velocity :: "rat option"

record midi_program =
  lengthBars :: "rat option"
  "notes" :: "note_event list"

definition VALID_BAR_LENGTHS :: "rat list" where
  "VALID_BAR_LENGTHS = [0.125, 0.25, 0.5, 1, 2, 4, 8, 16]"

subsection \<open>The program builder\<close>

text \<open>
  Whether the whole of \<open>m\<close> is matched by \<^verbatim>\<open>\d+(?:/\d+)?|\d*/\d+\<close>: digits, or digits (none
  allowed) then \<^verbatim>\<open>/\<close> then digits.
\<close>

definition is_duration_text :: "string \<Rightarrow> bool" where
  "is_duration_text m =
     (let a = takeWhile is_decimal m; r = dropWhile is_decimal m in
      case r of
        [] \<Rightarrow> a \<noteq> []
      | c # d \<Rightarrow> c = CHR ''/'' \<and> d \<noteq> [] \<and> list_all is_decimal d)"

text \<open>
  \<^verbatim>\<open>re.search(r'(\d+(?:/\d+)?|\d*/\d+)$', s)\<close>: group 1 of the leftmost match, if any.
  With the \<^verbatim>\<open>$\<close> the match runs to the end of \<open>s\<close>, or to the line feed that ends
  \<open>s\<close>.
\<close>

fun duration_search :: "string \<Rightarrow> string option" where
  "duration_search [] = None"
| "duration_search (c # cs) =
     (let m = (if last (c # cs) = newline then butlast (c # cs) else c # cs) in
      if is_duration_text m then Some m else duration_search cs)"

text \<open>The duration that \<^verbatim>\<open>abc_to_program\<close> reads from a chord token.\<close>

definition chord_token_duration :: "string \<Rightarrow> exn + rat" where
  "chord_token_duration token =
     (case duration_search (rstrip_chars '']'' token) of
        None \<Rightarrow> Inr 1
      | Some dur_str \<Rightarrow>
          if CHR ''/'' \<in> set dur_str then slash_duration dur_str
          else (case py_float dur_str of
                  None \<Rightarrow> Inl (float_error dur_str)
                | Some d \<Rightarrow> Inr d))"

definition new_note :: "int \<Rightarrow> rat \<Rightarrow> rat \<Rightarrow> rat \<Rightarrow> note_event" where
  "new_note midi current_beat duration default_velocity =
     \<lparr>pitch = Some midi, startBeat = Some current_beat,
      lengthBeats = Some duration, velocity = Some default_velocity\<rparr>"

text \<open>The body of the \<^verbatim>\<open>try\<close> for one token, on the note list and the beat cursor.\<close>

definition token_body ::
  "rat \<Rightarrow> string \<Rightarrow> note_event list \<times> rat \<Rightarrow> exn + (note_event list \<times> rat)" where
  "token_body default_velocity token st =
     (case st of (acc, current_beat) \<Rightarrow>
      if take 1 token = ''['' then
        (case parse_abc_chord token of
           Inl e \<Rightarrow> Inl e
         | Inr chord_notes \<Rightarrow>
             (case chord_token_duration token of
                Inl e \<Rightarrow> Inl e
              | Inr duration \<Rightarrow>
                  Inr (acc @ map (\<lambda>(midi, _). new_note midi current_beat duration
                                                  default_velocity) chord_notes,
                       current_beat + duration)))
      else
        (case parse_abc_note token of
           Inl e \<Rightarrow> Inl e
         | Inr (midi, duration) \<Rightarrow>
             Inr (if midi \<ge> 0
                  then acc @ [new_note midi current_beat duration default_velocity]
                  else acc,
                  current_beat + duration)))"

text \<open>
  The loop over the tokens, on the notes \<open>acc\<close>, the beat cursor and the errors. A
  \<^verbatim>\<open>ValueError\<close> is caught and its message collected; any other exception leaves the
  loop and the function.
\<close>

fun build :: "rat \<Rightarrow> string list \<Rightarrow> note_event list \<times> rat \<times> string list
    \<Rightarrow> exn + (note_event list \<times> rat \<times> string list)" where
  "build default_velocity [] st = Inr st"
| "build default_velocity (token # ts) (acc, current_beat, errs) =
     (case token_body default_velocity token (acc, current_beat) of
        Inl (ValueError msg) \<Rightarrow> build default_velocity ts (acc, current_beat, errs @ [msg])
      | Inl e \<Rightarrow> Inl e
      | Inr (acc', beat') \<Rightarrow> build default_velocity ts (acc', beat', errs))"

text \<open>The bar length for the beats elapsed: the \<^verbatim>\<open>for\<close> with its \<^verbatim>\<open>else\<close>.\<close>

definition length_bars_for :: "rat \<Rightarrow> int \<Rightarrow> rat" where
  "length_bars_for total_beats beats_per_bar =
     (let bars = (if beats_per_bar > 0 then total_beats / of_int beats_per_bar
                  else total_beats) in
      case find (\<lambda>valid. valid \<ge> bars - 0.001) VALID_BAR_LENGTHS of
        Some valid \<Rightarrow> valid
      | None \<Rightarrow> last VALID_BAR_LENGTHS)"

definition abc_to_program ::
  "string \<Rightarrow> int \<Rightarrow> rat \<Rightarrow> exn + (midi_program \<times> string list)" where
  "abc_to_program abc_str beats_per_bar default_velocity =
     (case build default_velocity (tokenize_abc abc_str) ([], 0, []) of
        Inl e \<Rightarrow> Inl e
      | Inr (acc, current_beat, errs) \<Rightarrow>
          Inr (\<lparr>lengthBars = Some (length_bars_for current_beat beats_per_bar),
                notes = acc\<rparr>, errs))"

subsection \<open>Note names and scales\<close>

definition NOTE_NAMES :: "string list" where
  "NOTE_NAMES = [''C'', ''C#'', ''D'', ''D#'', ''E'', ''F'', ''F#'', ''G'', ''G#'', ''A'', ''A#'', ''B'']"

definition SCALES :: "string \<rightharpoonup> int list" where
  "SCALES = map_of
     [(''major'', [0, 2, 4, 5, 7, 9, 11]),
      (''minor'', [0, 2, 3, 5, 7, 8, 10]),
      (''dorian'', [0, 2, 3, 5, 7, 9, 10]),
      (''mixolydian'', [0, 2, 4, 5, 7, 9, 10]),
      (''pentatonic_major'', [0, 2, 4, 7, 9]),
      (''pentatonic_minor'', [0, 3, 5, 7, 10]),
      (''blues'', [0, 3, 5, 6, 7, 10]),
      (''chromatic'', [0, 1, 2, 3, 4, 5, 6, 7, 8, 9, 10, 11])]"

text \<open>\<^verbatim>\<open>midi // 12\<close> and \<^verbatim>\<open>midi % 12\<close> are \<open>div\<close> and \<open>mod\<close> on \<^typ>\<open>int\<close>: both round to
  the floor. The index \<^verbatim>\<open>midi % 12\<close> is always within \<^verbatim>\<open>NOTE_NAMES\<close>.\<close>

definition midi_to_note_name :: "int \<Rightarrow> string" where
  "midi_to_note_name midi =
     (let octave = midi div 12 - 1;
          note = NOTE_NAMES ! nat (midi mod 12)
      in note @ str_int octave)"

definition get_scale_notes :: "int \<Rightarrow> string \<Rightarrow> int set" where
  "get_scale_notes root_note scale_name =
     (case SCALES scale_name of
        None \<Rightarrow> {}
      | Some intervals \<Rightarrow>
          set (filter (\<lambda>note. 0 \<le> note \<and> note \<le> 127)
                 (concat (map (\<lambda>octave. map (\<lambda>interval. octave * 12 + root_note mod 12 + interval)
                                           intervals)
                            [0 ..< 11]))))"

subsection \<open>The validator\<close>

text \<open>The checks on the note of index \<open>i\<close>: the errors and the warnings it adds.\<close>

definition check_note ::
  "int option \<Rightarrow> string option \<Rightarrow> int set option \<Rightarrow> rat \<Rightarrow> nat \<Rightarrow> note_event
     \<Rightarrow> string list \<times> string list" where
  "check_note key scale scale_notes total_beats i note =
     (let prefix = ''Note '' @ str_nat i;
          pitch_errors =
            (case pitch note of
               None \<Rightarrow> [prefix @ '': Missing '' @ [quote] @ ''pitch'' @ [quote]]
             | Some p \<Rightarrow>
                 if p < 0 \<or> p > 127 then [prefix @ '': Invalid pitch '' @ str_int p] else []);
          pitch_warnings =
            (case (pitch note, scale_notes, key, scale) of
               (Some p, Some sn, Some k, Some sc) \<Rightarrow>
                 if \<not> (p < 0 \<or> p > 127) \<and> sn \<noteq> {} \<and> p \<notin> sn
                 then [prefix @ '' ('' @ midi_to_note_name p @ ''): Outside ''
                       @ NOTE_NAMES ! nat (k mod 12) @ '' '' @ sc @ '' scale'']
                 else []
             | _ \<Rightarrow> []);
          start_errors =
            (case startBeat note of
               None \<Rightarrow> [prefix @ '': Missing '' @ [quote] @ ''startBeat'' @ [quote]]
             | Some start \<Rightarrow>
                 if start < 0 then [prefix @ '': Negative startBeat'']
                 else if total_beats > 0 \<and> start \<ge> total_beats
                 then [prefix @ '': Starts past program end'']
                 else []);
          length_errors =
            (case lengthBeats note of
               None \<Rightarrow> [prefix @ '': Missing '' @ [quote] @ ''lengthBeats'' @ [quote]]
             | Some len \<Rightarrow>
                 if len \<le> 0 then [prefix @ '': Non-positive duration''] else []);
          velocity_errors =
            (case velocity note of
               None \<Rightarrow> [prefix @ '': Missing '' @ [quote] @ ''velocity'' @ [quote]]
             | Some v \<Rightarrow>
                 if v < 0 \<or> v > 1 then [prefix @ '': Velocity must be 0.0-1.0''] else [])
      in (pitch_errors @ start_errors @ length_errors @ velocity_errors, pitch_warnings))"

text \<open>The loop over \<^verbatim>\<open>enumerate(notes)\<close>, from the index \<open>i\<close>.\<close>

fun check_notes ::
  "int option \<Rightarrow> string option \<Rightarrow> int set option \<Rightarrow> rat \<Rightarrow> nat \<Rightarrow> note_event list
     \<Rightarrow> string list \<times> string list" where
  "check_notes key scale scale_notes total_beats i [] = ([], [])"
| "check_notes key scale scale_notes total_beats i (note # ns) =
     (case check_note key scale scale_notes total_beats i note of (es, ws) \<Rightarrow>
      (case check_notes key scale scale_notes total_beats (Suc i) ns of (es', ws') \<Rightarrow>
       (es @ es', ws @ ws')))"

text \<open>
  \<^verbatim>\<open>validate_program\<close>: the errors and the warnings. The text that Python prints for the
  number in the message about an invalid bar length comes from the parameter
  \<open>repr_float\<close>. A scale is taken into account when a key is given and the scale name
  is given and not empty.
\<close>

definition validate_program ::
  "(rat \<Rightarrow> string) \<Rightarrow> midi_program \<Rightarrow> int option \<Rightarrow> string option \<Rightarrow> int
     \<Rightarrow> string list \<times> string list" where
  "validate_program repr_float program key scale beats_per_bar =
     (let length_errors =
            (case lengthBars program of
               None \<Rightarrow> [''Missing '' @ [quote] @ ''lengthBars'' @ [quote]]
             | Some length_bars \<Rightarrow>
                 if \<not> list_ex (\<lambda>v. \<bar>length_bars - v\<bar> < 0.001) VALID_BAR_LENGTHS
                 then [''Invalid bar length '' @ repr_float length_bars @ ''. Must be: ''
                       @ ''[0.125, 0.25, 0.5, 1.0, 2.0, 4.0, 8.0, 16.0]'']
                 else [])
      in
      if notes program = [] then (length_errors, [''Empty program (will silence track)''])
      else
        let total_beats = (case lengthBars program of None \<Rightarrow> 0 | Some length_bars \<Rightarrow> length_bars)
                          * of_int beats_per_bar;
            scale_notes =
              (case (key, scale) of
                 (Some k, Some sc) \<Rightarrow> if sc \<noteq> [] then Some (get_scale_notes k sc) else None
               | _ \<Rightarrow> None)
        in (case check_notes key scale scale_notes total_beats 0 (notes program) of
              (es, ws) \<Rightarrow> (length_errors @ es, ws)))"

subsection \<open>The serializer\<close>

text \<open>\<^verbatim>\<open>int(x)\<close> of a number: towards zero.\<close>

definition py_int :: "rat \<Rightarrow> int" where
  "py_int x = (if x \<ge> 0 then \<lfloor>x\<rfloor> else \<lceil>x\<rceil>)"

text \<open>\<^verbatim>\<open>xs.index(x)\<close>, with \<open>None\<close> for the \<^verbatim>\<open>ValueError\<close>.\<close>

fun list_index :: "'a list \<Rightarrow> 'a \<Rightarrow> nat option" where
  "list_index [] x = None"
| "list_index (y # ys) x =
     (if y = x then Some 0 else map_option Suc (list_index ys x))"

text \<open>\<^verbatim>\<open>c.lower()\<close> on the letters A to Z.\<close>

definition py_lower :: "char \<Rightarrow> char" where
  "py_lower c = (if c \<in> set ''ABCDEFGHIJKLMNOPQRSTUVWXYZ'' then char_of (of_char c + (32::nat)) else c)"

text \<open>The duration suffix that ends \<^verbatim>\<open>midi_to_abc\<close>.\<close>

definition duration_suffix :: "rat \<Rightarrow> string" where
  "duration_suffix duration_beats =
     (if \<bar>duration_beats - 0.25\<bar> < 0.01 then ''/4''
      else if \<bar>duration_beats - 0.5\<bar> < 0.01 then ''/2''
      else if \<bar>duration_beats - 1\<bar> < 0.01 then []
      else if \<bar>duration_beats - 2\<bar> < 0.01 then ''2''
      else if \<bar>duration_beats - 3\<bar> < 0.01 then ''3''
      else if \<bar>duration_beats - 4\<bar> < 0.01 then ''4''
      else if duration_beats = of_int (py_int duration_beats)
      then str_int (py_int duration_beats)
      else
        (let numerator = py_int (duration_beats * 4) in
         if numerator > 0 then str_int numerator @ ''/4'' else []))"

definition midi_to_abc :: "int \<Rightarrow> rat \<Rightarrow> exn + string" where
  "midi_to_abc p duration_beats =
     (let octave = p div 12;
          note_in_octave = p mod 12;
          natural_notes = [0, 2, 4, 5, 7, 9, 11];
          note_names_list = ''CDEFGAB'';
          is_sharp = (note_in_octave \<notin> set natural_notes);
          base_note = (if is_sharp then note_in_octave - 1 else note_in_octave)
      in
      case list_index natural_notes base_note of
        None \<Rightarrow> Inl (ValueError (str_int base_note @ '' is not in list''))
      | Some note_idx \<Rightarrow>
          (let note_char = note_names_list ! note_idx;
               result =
                 (if octave \<ge> 5 then
                    (if is_sharp then [CHR ''^'', py_lower note_char] else [py_lower note_char])
                    @ (if octave > 5 then replicate (nat (octave - 5)) quote else [])
                  else
                    (if is_sharp then [CHR ''^'', note_char] else [note_char])
                    @ (if octave < 4 then replicate (nat (4 - octave)) CHR '','' else []))
           in Inr (result @ duration_suffix duration_beats)))"

text \<open>The dictionary \<^verbatim>\<open>by_time\<close>, its keys in the order of their first insertion.\<close>

fun add_by_time :: "(rat \<times> note_event list) list \<Rightarrow> rat \<Rightarrow> note_event
    \<Rightarrow> (rat \<times> note_event list) list" where
  "add_by_time [] start note = [(start, [note])]"
| "add_by_time ((k, grp) # m) start note =
     (if k = start then (k, grp @ [note]) # m else (k, grp) # add_by_time m start note)"

definition group_by_time :: "note_event list \<Rightarrow> (rat \<times> note_event list) list" where
  "group_by_time ns =
     foldl (\<lambda>by_time note.
              add_by_time by_time (case startBeat note of None \<Rightarrow> 0 | Some start \<Rightarrow> start) note)
       [] ns"

text \<open>The pitches of a chord, each written with the duration \<^verbatim>\<open>1.0\<close>.\<close>

fun chord_texts :: "note_event list \<Rightarrow> exn + string list" where
  "chord_texts [] = Inr []"
| "chord_texts (n # ns) =
     (case pitch n of
        None \<Rightarrow> Inl (KeyError ''pitch'')
      | Some p \<Rightarrow>
          (case midi_to_abc p 1 of
             Inl e \<Rightarrow> Inl e
           | Inr t \<Rightarrow>
               (case chord_texts ns of
                  Inl e \<Rightarrow> Inl e
                | Inr ts \<Rightarrow> Inr (t # ts))))"

text \<open>The text of one group of notes that start together.\<close>

definition group_text :: "note_event list \<Rightarrow> exn + string" where
  "group_text grp =
     (case grp of
        [] \<Rightarrow> Inl IndexError
      | [n] \<Rightarrow>
          (case pitch n of
             None \<Rightarrow> Inl (KeyError ''pitch'')
           | Some p \<Rightarrow> midi_to_abc p (case lengthBeats n of None \<Rightarrow> 1 | Some d \<Rightarrow> d))
      | n # _ \<Rightarrow>
          (let duration = (case lengthBeats n of None \<Rightarrow> 1 | Some d \<Rightarrow> d) in
           case chord_texts grp of
             Inl e \<Rightarrow> Inl e
           | Inr chord_notes \<Rightarrow>
               Inr (''['' @ concat chord_notes @ '']'' @
                    (if \<bar>duration - 1\<bar> > 0.01 then
                       (if duration = of_int (py_int duration) then str_int (py_int duration)
                        else if \<bar>duration - 0.5\<bar> < 0.01 then ''/2''
                        else if \<bar>duration - 0.25\<bar> < 0.01 then ''/4''
                        else [])
                     else []))))"

text \<open>
  The loop over \<^verbatim>\<open>sorted_times\<close>, on \<^verbatim>\<open>abc_parts\<close> and \<^verbatim>\<open>notes_in_bar\<close>. The floor
  division and the remainder by \<^verbatim>\<open>beats_per_bar\<close> raise when it is zero.
\<close>

fun emit_groups :: "int \<Rightarrow> (rat \<times> note_event list) list \<Rightarrow> rat list \<Rightarrow> string list \<times> nat
    \<Rightarrow> exn + string list" where
  "emit_groups beats_per_bar by_time [] (abc_parts, notes_in_bar) = Inr abc_parts"
| "emit_groups beats_per_bar by_time (start_time # ts) (abc_parts, notes_in_bar) =
     (case map_of by_time start_time of
        None \<Rightarrow> Inl (KeyError ''start_time'')
      | Some grp \<Rightarrow>
          if beats_per_bar = 0 then Inl ZeroDivisionError
          else
            (let bar_num = \<lfloor>start_time / of_int beats_per_bar\<rfloor>;
                 remainder = start_time - of_int beats_per_bar * of_int bar_num;
                 new_bar = (bar_num > 0 \<and> notes_in_bar > 0 \<and> remainder < 0.01);
                 parts1 = (if new_bar then abc_parts @ [''|''] else abc_parts);
                 in_bar1 = (if new_bar then 0 else notes_in_bar)
             in
             case group_text grp of
               Inl e \<Rightarrow> Inl e
             | Inr t \<Rightarrow> emit_groups beats_per_bar by_time ts (parts1 @ [t], Suc in_bar1)))"

definition program_to_abc :: "midi_program \<Rightarrow> int \<Rightarrow> exn + string" where
  "program_to_abc program beats_per_bar =
     (if notes program = [] then Inr ''z4 |''
      else
        let by_time = group_by_time (notes program);
            sorted_times = sort (map fst by_time)
        in
        case emit_groups beats_per_bar by_time sorted_times ([], 0) of
          Inl e \<Rightarrow> Inl e
        | Inr abc_parts \<Rightarrow> Inr (py_join '' '' (abc_parts @ [''|''])))"

subsection \<open>The pipeline\<close>

record validation_result =
  valid :: bool
  abc_input :: string
  program :: "midi_program option"
  errors :: "string list"
  warnings :: "string list"
  abc_output :: "string option"

definition DEFAULT_VELOCITY :: rat where
  "DEFAULT_VELOCITY = 0.8"

definition validate_abc ::
  "(rat \<Rightarrow> string) \<Rightarrow> string \<Rightarrow> int option \<Rightarrow> string option \<Rightarrow> int
     \<Rightarrow> exn + validation_result" where
  "validate_abc repr_float abc_str key scale beats_per_bar =
     (case abc_to_program abc_str beats_per_bar DEFAULT_VELOCITY of
        Inl e \<Rightarrow> Inl e
      | Inr (prog, parse_errors) \<Rightarrow>
          if parse_errors \<noteq> [] then
            Inr \<lparr>valid = False, abc_input = abc_str, program = None,
                 errors = parse_errors, warnings = [], abc_output = None\<rparr>
          else
            (case validate_program repr_float prog key scale beats_per_bar of
               (val_errors, val_warnings) \<Rightarrow>
                 if val_errors \<noteq> [] then
                   Inr \<lparr>valid = False, abc_input = abc_str, program = Some prog,
                        errors = val_errors, warnings = val_warnings, abc_output = None\<rparr>
                 else
                   (case program_to_abc prog beats_per_bar of
                      Inl e \<Rightarrow> Inl e
                    | Inr out \<Rightarrow>
                        Inr \<lparr>valid = True, abc_input = abc_str, program = Some prog,
                             errors = [], warnings = val_warnings, abc_output = Some out\<rparr>)))"

subsection \<open>Auxiliary notions for the statements\<close>

text \<open>\<^verbatim>\<open>sub in s\<close> on strings: \<open>sub\<close> occurs in \<open>s\<close>, letter case included.\<close>

fun is_prefix_of :: "string \<Rightarrow> string \<Rightarrow> bool" where
  "is_prefix_of [] s = True"
| "is_prefix_of (x # xs) [] = False"
| "is_prefix_of (x # xs) (y # ys) = (x = y \<and> is_prefix_of xs ys)"

fun py_in :: "string \<Rightarrow> string \<Rightarrow> bool" where
  "py_in sub [] = (sub = [])"
| "py_in sub (c # cs) = (is_prefix_of sub (c # cs) \<or> py_in sub cs)"

text \<open>
  An instance of the parameter \<open>repr_float\<close> for the closed examples: the text Python
  prints for a float whose value is an integer of at most sixteen digits.
\<close>

definition repr_whole :: "rat \<Rightarrow> string" where
  "repr_whole x = str_int (py_int x) @ ''.0''"


section \<open>Lemmas on the parsers and the builder\<close>





lemma tokenize_abc_empty: "tokenize_abc [] = []"
  by code_simp

lemma length_bars_for_zero: "length_bars_for 0 beats_per_bar = 0.125"
  by (simp add: length_bars_for_def VALID_BAR_LENGTHS_def)





























section \<open>Properties\<close>

subsection \<open>Zero denominators\<close>

text \<open>
  C1. The claim: no token of the notation grammar, \<^verbatim>\<open>C/0\<close> among them, makes the parser or
  the pipeline around it raise an exception that is not caught. The code at \<^verbatim>\<open>C/0\<close>:
  the division \<^verbatim>\<open>1.0 / float('0')\<close> raises \<^verbatim>\<open>ZeroDivisionError\<close>, which the
  \<^verbatim>\<open>except ValueError\<close> of the builder does not catch, so the builder and the whole
  pipeline end with that exception instead of a collected parse error.
\<close>

theorem C1_zero_denominator_escapes:
  "parse_abc_note ''C/0'' = Inl ZeroDivisionError
   \<and> abc_to_program ''C/0'' 4 DEFAULT_VELOCITY = Inl ZeroDivisionError
   \<and> validate_abc repr_whole ''C/0'' None None 4 = Inl ZeroDivisionError"
  by code_simp

subsection \<open>One chord with a duration\<close>

text \<open>
  C2. The builder on \<^verbatim>\<open>[CEG]2\<close> with four beats per bar and the default velocity emits
  exactly three notes, of pitch 48, 52 and 55, each starting at beat 0, two beats long,
  of velocity 0.8; it collects no error and leaves the beat cursor at 2. The program
  returned holds these notes.
\<close>

theorem C2_chord_CEG2:
  "build DEFAULT_VELOCITY (tokenize_abc ''[CEG]2'') ([], 0, []) =
     Inr ([\<lparr>pitch = Some 48, startBeat = Some 0, lengthBeats = Some 2, velocity = Some 0.8\<rparr>,
           \<lparr>pitch = Some 52, startBeat = Some 0, lengthBeats = Some 2, velocity = Some 0.8\<rparr>,
           \<lparr>pitch = Some 55, startBeat = Some 0, lengthBeats = Some 2, velocity = Some 0.8\<rparr>],
          2, [])
   \<and> abc_to_program ''[CEG]2'' 4 DEFAULT_VELOCITY =
     Inr (\<lparr>lengthBars = Some 0.5,
           notes =
            [\<lparr>pitch = Some 48, startBeat = Some 0, lengthBeats = Some 2, velocity = Some 0.8\<rparr>,
             \<lparr>pitch = Some 52, startBeat = Some 0, lengthBeats = Some 2, velocity = Some 0.8\<rparr>,
             \<lparr>pitch = Some 55, startBeat = Some 0, lengthBeats = Some 2, velocity = Some 0.8\<rparr>]\<rparr>,
          [])"
  by code_simp

subsection \<open>The duration the chord parser returns\<close>

text \<open>
  C3. The claim: the chord parser returns the suffix of the chord token as the duration of
  every pair. The code at \<^verbatim>\<open>[CEG]2\<close>: every pair holds the duration 1, the initial value
  of \<^verbatim>\<open>chord_duration\<close>, and not the 2 of the suffix.
\<close>

theorem C3_chord_parser_ignores_suffix:
  "parse_abc_chord ''[CEG]2'' = Inr [(48, 1), (52, 1), (55, 1)]"
  by code_simp

subsection \<open>A note of length zero\<close>


subsection \<open>The shape of the result\<close>

text \<open>
  C4. Whenever \<^verbatim>\<open>validate_abc\<close> returns a result: if the builder collected parse errors,
  the result is not valid, its errors are these parse errors and it has neither program
  nor normalized text; if there was no parse error and the validator reports errors, the
  result is not valid, holds the program and these errors, and has no normalized text; a
  valid result comes from no parse error and no validation error; and the normalized text
  is present exactly when the result is valid.
\<close>

theorem C4_result_shape:
  assumes "validate_abc repr_float abc_str key scale beats_per_bar = Inr r"
  shows "\<exists>prog parse_errors.
           abc_to_program abc_str beats_per_bar DEFAULT_VELOCITY = Inr (prog, parse_errors)
           \<and> (parse_errors \<noteq> [] \<longrightarrow>
                \<not> valid r \<and> errors r = parse_errors \<and> program r = None \<and> abc_output r = None)
           \<and> (parse_errors = []
                \<and> fst (validate_program repr_float prog key scale beats_per_bar) \<noteq> [] \<longrightarrow>
                \<not> valid r \<and> program r = Some prog \<and> abc_output r = None
                \<and> errors r = fst (validate_program repr_float prog key scale beats_per_bar))
           \<and> (valid r \<longrightarrow> parse_errors = []
                \<and> fst (validate_program repr_float prog key scale beats_per_bar) = []
                \<and> program r = Some prog \<and> errors r = [])
           \<and> (abc_output r \<noteq> None \<longleftrightarrow> valid r)"
  using assms
  by (auto simp: validate_abc_def split: sum.splits prod.splits if_splits)

theorem C4_result_shape_witness:
  "validate_abc repr_whole ''C0 ^'' None None 4 =
     Inr \<lparr>valid = False, abc_input = ''C0 ^'', program = None,
          errors = [''Invalid ABC note: ^''], warnings = [], abc_output = None\<rparr>
   \<and> abc_to_program ''C0 ^'' 4 DEFAULT_VELOCITY =
     Inr (\<lparr>lengthBars = Some 0.125,
           notes = [\<lparr>pitch = Some 48, startBeat = Some 0, lengthBeats = Some 0,
                     velocity = Some 0.8\<rparr>]\<rparr>, [''Invalid ABC note: ^''])"
proof -
  have h: "validate_abc repr_whole ''C0 ^'' None None 4 =
     Inr \<lparr>valid = False, abc_input = ''C0 ^'', program = None,
          errors = [''Invalid ABC note: ^''], warnings = [], abc_output = None\<rparr>"
    by code_simp
  have p: "abc_to_program ''C0 ^'' 4 DEFAULT_VELOCITY =
     Inr (\<lparr>lengthBars = Some 0.125,
           notes = [\<lparr>pitch = Some 48, startBeat = Some 0, lengthBeats = Some 0,
                     velocity = Some 0.8\<rparr>]\<rparr>, [''Invalid ABC note: ^''])"
    by code_simp
  from C4_result_shape [OF h] h p show ?thesis by simp
qed

subsection \<open>The bar length\<close>



subsection \<open>The empty text\<close>

text \<open>
  C8, as claimed: on the empty text the result has a warning whose text contains
  \<^verbatim>\<open>empty\<close>. The only warning is \<^verbatim>\<open>Empty program (will silence track)\<close>, where the word
  starts with a capital letter: \<^verbatim>\<open>empty\<close> does not occur in it.
\<close>

theorem C8_empty_counterexample:
  "validate_abc repr_whole [] None None 4 =
     Inr \<lparr>valid = True, abc_input = [],
          program = Some \<lparr>lengthBars = Some 0.125, notes = []\<rparr>,
          errors = [], warnings = [''Empty program (will silence track)''],
          abc_output = Some ''z4 |''\<rparr>
   \<and> \<not> py_in ''empty'' ''Empty program (will silence track)''"
  by code_simp

text \<open>
  C8, amended: on the empty text, whatever the key, the scale and the beats per bar, the
  pipeline returns a valid result with a program without notes, no error and the single
  warning \<^verbatim>\<open>Empty program (will silence track)\<close>, in which \<^verbatim>\<open>Empty\<close> occurs.
\<close>

theorem C8_empty_text:
  "validate_abc repr_float [] key scale beats_per_bar =
     Inr \<lparr>valid = True, abc_input = [],
          program = Some \<lparr>lengthBars = Some 0.125, notes = []\<rparr>,
          errors = [], warnings = [''Empty program (will silence track)''],
          abc_output = Some ''z4 |''\<rparr>
   \<and> py_in ''Empty'' ''Empty program (will silence track)''"
proof -
  have "abc_to_program [] beats_per_bar DEFAULT_VELOCITY =
      Inr (\<lparr>lengthBars = Some 0.125, notes = []\<rparr>, [])"
    by (simp add: abc_to_program_def tokenize_abc_empty length_bars_for_zero)
  moreover have "validate_program repr_float \<lparr>lengthBars = Some 0.125, notes = []\<rparr>
      key scale beats_per_bar = ([], [''Empty program (will silence track)''])"
    by (simp add: validate_program_def VALID_BAR_LENGTHS_def)
  moreover have "program_to_abc \<lparr>lengthBars = Some 0.125, notes = []\<rparr> beats_per_bar
      = Inr ''z4 |''"
    by (simp add: program_to_abc_def)
  moreover have "py_in ''Empty'' ''Empty program (will silence track)''"
    by simp
  ultimately show ?thesis by (simp add: validate_abc_def)
qed

subsection \<open>The order of the notes\<close>




subsection \<open>A suffix that is not a duration\<close>




end
